theory Spec2Isabelle
  imports Complex_Main "HOL-Library.Word"
begin

section \<open>Configuration constants (apps/firmware/include/config.h)\<close>

text \<open>
  The firmware reads its configuration from \<^verbatim>\<open>constexpr\<close> constants of the namespace
  \<^verbatim>\<open>sigma::config\<close>. The record below has one field per constant, so that a statement
  about every configuration quantifies over the record. The \<^verbatim>\<open>float\<close> constants are
  taken at their exact (finite) values: the only operation the firmware applies to them
  is an ordered comparison, which on finite floats is the comparison of the values.
  \<^verbatim>\<open>unsigned long\<close> is 32 bits wide on the Arduino targets, \<^verbatim>\<open>uint8_t\<close> is 8 bits.
\<close>

type_synonym pin = "8 word"
type_synonym ulong = "32 word"

record config =
  kFirmwareVersion :: string
  kSerialBaudRate :: "32 word"
  kStatusLedPin :: pin
  kButtonPin :: pin
  kRecommendedMaxSplDb :: real
  kAbsoluteMaxSplDb :: real
  kMicBiasMinVolts :: real
  kMicBiasMaxVolts :: real
  kBatteryNominalVolts :: real
  kBatteryLowVolts :: real
  kBatteryCriticalVolts :: real

text \<open>
  The values of config.h. \<^verbatim>\<open>1.8f\<close>, \<^verbatim>\<open>3.3f\<close> and \<^verbatim>\<open>3.7f\<close> are the nearest
  single-precision floats, written as fractions; 85, 94 and 3 are exact.
\<close>

definition config_h :: config where
  "config_h =
     \<lparr> kFirmwareVersion = ''0.1.0'',
       kSerialBaudRate = 115200,
       kStatusLedPin = 2,
       kButtonPin = 0,
       kRecommendedMaxSplDb = 85,
       kAbsoluteMaxSplDb = 94,
       kMicBiasMinVolts = 7549747 / 4194304,
       kMicBiasMaxVolts = 13841203 / 4194304,
       kBatteryNominalVolts = 15518925 / 4194304,
       kBatteryLowVolts = 13841203 / 4194304,
       kBatteryCriticalVolts = 3 \<rparr>"

section \<open>The Arduino calls the firmware makes\<close>

text \<open>
  The hardware abstraction is outside the repository. Each call the firmware makes to
  it is recorded, in order, as one effect; \<^verbatim>\<open>millis()\<close> and \<^verbatim>\<open>digitalRead\<close> are inputs
  of \<open>loop\<close>. \<^verbatim>\<open>Serial.println()\<close> without an argument is the \<^verbatim>\<open>println\<close> of the empty
  text, and \<^verbatim>\<open>Serial.print\<close> of a \<^verbatim>\<open>float\<close> has an effect of its own, since how the
  number is rendered is decided by the Arduino core.
\<close>

datatype level = LOW | HIGH

datatype pin_mode = OUTPUT | INPUT_PULLUP

datatype effect =
    PinMode pin pin_mode
  | DigitalWrite pin level
  | SerialBegin "32 word"
  | SerialPrint string
  | SerialPrintFloat real
  | SerialPrintln string

text \<open>
  The mutable state of main.cpp: the two file-scope variables, and the effects performed
  so far.
\<close>

record world =
  last_sample_ms :: ulong
  button_state :: bool
  effects :: "effect list"

definition perform :: "effect \<Rightarrow> world \<Rightarrow> world" where
  "perform e w = w\<lparr>effects := effects w @ [e]\<rparr>"

definition pinMode :: "pin \<Rightarrow> pin_mode \<Rightarrow> world \<Rightarrow> world" where
  "pinMode p m = perform (PinMode p m)"

definition digitalWrite :: "pin \<Rightarrow> level \<Rightarrow> world \<Rightarrow> world" where
  "digitalWrite p l = perform (DigitalWrite p l)"

definition Serial_begin :: "32 word \<Rightarrow> world \<Rightarrow> world" where
  "Serial_begin b = perform (SerialBegin b)"

definition Serial_print :: "string \<Rightarrow> world \<Rightarrow> world" where
  "Serial_print s = perform (SerialPrint s)"

definition Serial_print_float :: "real \<Rightarrow> world \<Rightarrow> world" where
  "Serial_print_float x = perform (SerialPrintFloat x)"

definition Serial_println :: "string \<Rightarrow> world \<Rightarrow> world" where
  "Serial_println s = perform (SerialPrintln s)"

text \<open>Statements of a function body, run in order.\<close>

definition steps :: "('s \<Rightarrow> 's) list \<Rightarrow> 's \<Rightarrow> 's" where
  "steps fs w = foldl (\<lambda>v f. f v) w fs"

section \<open>main.cpp\<close>

definition kDebounceDelayMs :: ulong where
  "kDebounceDelayMs = 10"

text \<open>The static initialisers of \<^verbatim>\<open>last_sample_ms\<close> and \<^verbatim>\<open>button_state\<close>.\<close>

definition boot :: world where
  "boot = \<lparr> last_sample_ms = 0, button_state = False, effects = [] \<rparr>"

text \<open>
  The warning of \<^verbatim>\<open>enforce_audio_safety\<close>. The source has an en dash (the bytes E2 80 93
  in UTF-8) between "maximum" and "check".
\<close>

definition spl_warning :: string where
  "spl_warning =
     ''[safety] Recommended SPL exceeds absolute maximum '' @
     [CHR 0xE2, CHR 0x80, CHR 0x93] @ '' check config.h''"

definition enforce_audio_safety :: "config \<Rightarrow> world \<Rightarrow> world" where
  "enforce_audio_safety cfg w =
     (if kRecommendedMaxSplDb cfg > kAbsoluteMaxSplDb cfg
      then Serial_println spl_warning w
      else w)"

definition report_safety_callouts :: "config \<Rightarrow> world \<Rightarrow> world" where
  "report_safety_callouts cfg =
     steps
       [ Serial_print ''[safety] Maintain SPL under '',
         Serial_print_float (kRecommendedMaxSplDb cfg),
         Serial_println '' dB for extended sessions (absolute max 94 dB).'',
         Serial_print ''[safety] Keep mic bias between '',
         Serial_print_float (kMicBiasMinVolts cfg),
         Serial_print '' V and '',
         Serial_print_float (kMicBiasMaxVolts cfg),
         Serial_println '' V.'',
         Serial_print ''[safety] Stop use if battery drops below '',
         Serial_print_float (kBatteryLowVolts cfg),
         Serial_println '' V (critical at 3.0 V).'' ]"

text \<open>\<^verbatim>\<open>setup()\<close>; the name \<open>setup\<close> is reserved in Isabelle.\<close>

definition setup_fw :: "config \<Rightarrow> world \<Rightarrow> world" where
  "setup_fw cfg =
     steps
       [ pinMode (kStatusLedPin cfg) OUTPUT,
         pinMode (kButtonPin cfg) INPUT_PULLUP,
         digitalWrite (kStatusLedPin cfg) LOW,
         Serial_begin (kSerialBaudRate cfg),
         Serial_println [],
         Serial_print ''Sigma firmware ready (v'',
         Serial_print (kFirmwareVersion cfg),
         Serial_println '')'',
         Serial_println ''Press the button to toggle the status LED'',
         enforce_audio_safety cfg,
         report_safety_callouts cfg ]"

text \<open>
  \<^verbatim>\<open>loop()\<close>. \<open>now\<close> is what \<^verbatim>\<open>millis()\<close> returns at this call and \<open>rd\<close> what
  \<^verbatim>\<open>digitalRead(kButtonPin)\<close> would return; the subtraction and the comparison are those
  of \<^verbatim>\<open>unsigned long\<close>.
\<close>

definition loop :: "config \<Rightarrow> ulong \<Rightarrow> level \<Rightarrow> world \<Rightarrow> world" where
  "loop cfg now rd w =
     (if now - last_sample_ms w < kDebounceDelayMs then w
      else
        let w1 = w\<lparr>last_sample_ms := now\<rparr>;
            pressed = (rd = LOW)
        in if pressed \<noteq> button_state w1
           then steps
                  [ (\<lambda>v. v\<lparr>button_state := pressed\<rparr>),
                    digitalWrite (kStatusLedPin cfg) (if pressed then HIGH else LOW),
                    Serial_print ''Button state: '',
                    Serial_println (if pressed then ''pressed'' else ''released'') ] w1
           else w1)"

text \<open>
  The Arduino runtime calls \<^verbatim>\<open>loop()\<close> again and again; \<open>run\<close> is a finite prefix of
  that, one pair (millis, level read) per call.
\<close>

fun run :: "config \<Rightarrow> (ulong \<times> level) list \<Rightarrow> world \<Rightarrow> world" where
  "run cfg [] w = w"
| "run cfg ((now, rd) # ts) w = run cfg ts (loop cfg now rd w)"

section \<open>Views of the effects\<close>

text \<open>
  The lines of the serial channel: a line is the text printed up to and including a
  \<^verbatim>\<open>println\<close>. \<open>fmt\<close> is how \<^verbatim>\<open>Serial.print(float)\<close> renders a number (the Arduino
  core's, outside the repository).
\<close>

fun lines_from :: "(real \<Rightarrow> string) \<Rightarrow> string \<Rightarrow> effect list \<Rightarrow> string list" where
  "lines_from fmt cur [] = []"
| "lines_from fmt cur (SerialPrint s # es) = lines_from fmt (cur @ s) es"
| "lines_from fmt cur (SerialPrintFloat x # es) = lines_from fmt (cur @ fmt x) es"
| "lines_from fmt cur (SerialPrintln s # es) = (cur @ s) # lines_from fmt [] es"
| "lines_from fmt cur (e # es) = lines_from fmt cur es"

definition serial_lines :: "(real \<Rightarrow> string) \<Rightarrow> world \<Rightarrow> string list" where
  "serial_lines fmt w = lines_from fmt [] (effects w)"

text \<open>The level last written to a pin with \<^verbatim>\<open>digitalWrite\<close>, if any.\<close>

fun last_write :: "pin \<Rightarrow> effect list \<Rightarrow> level option" where
  "last_write p [] = None"
| "last_write p (DigitalWrite q l # es) =
     (case last_write p es of Some l' \<Rightarrow> Some l' | None \<Rightarrow> if q = p then Some l else None)"
| "last_write p (e # es) = last_write p es"

definition status_level :: "config \<Rightarrow> world \<Rightarrow> level option" where
  "status_level cfg w = last_write (kStatusLedPin cfg) (effects w)"

section \<open>Vocabulary of the statements\<close>

text \<open>
  The effects of one accepted state change (lines 55 to 57 of main.cpp): the write of the
  status pin, then the two serial calls that make up the notification line.
\<close>

definition change_effects :: "config \<Rightarrow> bool \<Rightarrow> effect list" where
  "change_effects cfg pressed =
     [ DigitalWrite (kStatusLedPin cfg) (if pressed then HIGH else LOW),
       SerialPrint ''Button state: '',
       SerialPrintln (if pressed then ''pressed'' else ''released'') ]"

text \<open>The number of changes of \<open>button_state\<close> between two worlds: 0 or 1.\<close>

definition changes :: "world \<Rightarrow> world \<Rightarrow> nat" where
  "changes w w' = (if button_state w' = button_state w then 0 else 1)"

text \<open>The level \<^verbatim>\<open>loop()\<close> writes for a debounced state: \<^verbatim>\<open>pressed ? HIGH : LOW\<close>.\<close>

definition level_of :: "bool \<Rightarrow> level" where
  "level_of pressed = (if pressed then HIGH else LOW)"

text \<open>The status pin shows the debounced state.\<close>

definition mirrors :: "config \<Rightarrow> world \<Rightarrow> bool" where
  "mirrors cfg w = (status_level cfg w = Some (level_of (button_state w)))"

text \<open>A world whose last sample was taken 5 ms before \<^verbatim>\<open>millis()\<close> wraps to 0.\<close>

definition late :: world where
  "late = boot\<lparr>last_sample_ms := 0xFFFFFFFB\<rparr>"

text \<open>
  Two configurations that differ from config.h in one relation each: the mic-bias bounds
  inverted (minimum 3 V, maximum 2 V), and the critical battery voltage (3.5 V) above the
  low-battery voltage.
\<close>

definition inverted_bias :: config where
  "inverted_bias = config_h\<lparr>kMicBiasMinVolts := 3, kMicBiasMaxVolts := 2\<rparr>"

definition weak_battery :: config where
  "weak_battery = config_h\<lparr>kBatteryCriticalVolts := 7 / 2\<rparr>"

section \<open>Basic facts\<close>

lemma steps_Nil [simp]: "steps [] w = w"
  by (simp add: steps_def)

lemma steps_Cons [simp]: "steps (f # fs) w = steps fs (f w)"
  by (simp add: steps_def)

lemmas call_defs =
  perform_def pinMode_def digitalWrite_def Serial_begin_def Serial_print_def
  Serial_print_float_def Serial_println_def

section \<open>Properties of the functions\<close>

lemma loop_ignored:
  "now - last_sample_ms w < kDebounceDelayMs \<Longrightarrow> loop cfg now rd w = w"
  by (simp add: loop_def)

lemma loop_sampled:
  "\<not> now - last_sample_ms w < kDebounceDelayMs \<Longrightarrow>
   loop cfg now rd w =
     (if (rd = LOW) = button_state w then w\<lparr>last_sample_ms := now\<rparr>
      else w\<lparr>last_sample_ms := now, button_state := (rd = LOW),
             effects := effects w @ change_effects cfg (rd = LOW)\<rparr>)"
  by (simp add: loop_def Let_def call_defs change_effects_def)

lemma enforce_ok:
  "\<not> kRecommendedMaxSplDb cfg > kAbsoluteMaxSplDb cfg \<Longrightarrow> enforce_audio_safety cfg w = w"
  by (simp add: enforce_audio_safety_def)

lemma enforce_bad:
  "kRecommendedMaxSplDb cfg > kAbsoluteMaxSplDb cfg \<Longrightarrow>
   enforce_audio_safety cfg w = w\<lparr>effects := effects w @ [SerialPrintln spl_warning]\<rparr>"
  by (simp add: enforce_audio_safety_def call_defs)

lemma guard_mod:
  "(now - last < kDebounceDelayMs) = ((uint now - uint last) mod 2 ^ 32 < 10)"
  for now last :: ulong
  by (simp add: word_less_alt uint_word_ariths kDebounceDelayMs_def)

lemma loop_fix_iff:
  "(loop cfg now rd w = w) = (now - last_sample_ms w < kDebounceDelayMs)"
proof
  assume eq: "loop cfg now rd w = w"
  show "now - last_sample_ms w < kDebounceDelayMs"
  proof (rule ccontr)
    assume n: "\<not> now - last_sample_ms w < kDebounceDelayMs"
    then have "last_sample_ms (loop cfg now rd w) = now"
      by (simp add: loop_sampled)
    with eq have "now = last_sample_ms w" by simp
    with n show False by (simp add: kDebounceDelayMs_def)
  qed
next
  assume "now - last_sample_ms w < kDebounceDelayMs"
  then show "loop cfg now rd w = w" by (rule loop_ignored)
qed

lemma elapsed_guard:
  fixes last :: ulong
  assumes "10 \<le> d" "d < 2 ^ 32"
  shows "\<not> (last + of_nat d) - last < kDebounceDelayMs"
proof -
  have "unat (of_nat d :: ulong) = d"
    using assms(2) by (simp add: unat_of_nat)
  then show ?thesis
    using assms(1) by (simp add: word_less_nat_alt kDebounceDelayMs_def)
qed

lemma loop_same_value:
  "button_state w = (rd = LOW) \<Longrightarrow>
   effects (loop cfg now rd w) = effects w \<and> button_state (loop cfg now rd w) = button_state w"
  by (cases "now - last_sample_ms w < kDebounceDelayMs") (simp_all add: loop_ignored loop_sampled)

lemma run_same_value:
  "button_state w = (rd = LOW) \<Longrightarrow>
   effects (run cfg (map (\<lambda>t. (t, rd)) ts) w) = effects w \<and>
   button_state (run cfg (map (\<lambda>t. (t, rd)) ts) w) = button_state w"
proof (induction ts arbitrary: w)
  case Nil
  then show ?case by simp
next
  case (Cons t ts)
  from Cons.prems have step:
    "effects (loop cfg t rd w) = effects w \<and> button_state (loop cfg t rd w) = button_state w"
    by (rule loop_same_value)
  with Cons.prems have "button_state (loop cfg t rd w) = (rd = LOW)" by simp
  from Cons.IH [OF this] step show ?case by simp
qed

lemma loop_effects:
  "effects (loop cfg now rd w) =
     effects w @ (if button_state (loop cfg now rd w) = button_state w then []
                  else change_effects cfg (button_state (loop cfg now rd w)))"
  by (cases "now - last_sample_ms w < kDebounceDelayMs") (auto simp add: loop_ignored loop_sampled)

lemma loop_button:
  "button_state (loop cfg now rd w) = button_state w \<or> button_state (loop cfg now rd w) = (rd = LOW)"
  by (cases "now - last_sample_ms w < kDebounceDelayMs") (auto simp add: loop_ignored loop_sampled)

lemma run_at_most_one:
  "effects (run cfg (map (\<lambda>t. (t, rd)) ts) w) = effects w \<or>
   effects (run cfg (map (\<lambda>t. (t, rd)) ts) w) = effects w @ change_effects cfg (rd = LOW)"
proof (induction ts arbitrary: w)
  case Nil
  then show ?case by simp
next
  case (Cons t ts)
  show ?case
  proof (cases "button_state (loop cfg t rd w) = button_state w")
    case True
    then have "effects (loop cfg t rd w) = effects w"
      using loop_effects [of cfg t rd w] by simp
    with Cons.IH [of "loop cfg t rd w"] show ?thesis by simp
  next
    case False
    then have b: "button_state (loop cfg t rd w) = (rd = LOW)"
      using loop_button [of cfg t rd w] by simp
    from False have "effects (loop cfg t rd w) = effects w @ change_effects cfg (rd = LOW)"
      using loop_effects [of cfg t rd w] b by simp
    with run_same_value [OF b, of cfg ts] show ?thesis by simp
  qed
qed

lemma change_lines:
  "lines_from fmt [] (change_effects cfg p) =
     [''Button state: '' @ (if p then ''pressed'' else ''released'')]"
  by (simp add: change_effects_def)

lemma last_write_append:
  "last_write p (es @ fs) =
     (case last_write p fs of Some l \<Rightarrow> Some l | None \<Rightarrow> last_write p es)"
  by (induction p es rule: last_write.induct) (auto split: option.splits)

lemma setup_state:
  "last_sample_ms (setup_fw cfg w) = last_sample_ms w \<and>
   button_state (setup_fw cfg w) = button_state w"
  by (simp add: setup_fw_def report_safety_callouts_def enforce_audio_safety_def call_defs)

lemma enforce_last_write:
  "last_write p (effects (enforce_audio_safety cfg w)) = last_write p (effects w)"
  by (simp add: enforce_audio_safety_def call_defs last_write_append)

lemma callouts_last_write:
  "last_write p (effects (report_safety_callouts cfg w)) = last_write p (effects w)"
  by (simp add: report_safety_callouts_def call_defs last_write_append)

lemma setup_mirrors: "status_level cfg (setup_fw cfg w) = Some LOW"
  by (simp add: status_level_def setup_fw_def callouts_last_write enforce_last_write)
     (simp add: call_defs last_write_append)

lemma loop_mirrors: "mirrors cfg w \<Longrightarrow> mirrors cfg (loop cfg now rd w)"
  by (cases "now - last_sample_ms w < kDebounceDelayMs")
     (auto simp add: loop_ignored loop_sampled mirrors_def status_level_def level_of_def
        change_effects_def last_write_append)

lemma run_mirrors: "mirrors cfg w \<Longrightarrow> mirrors cfg (run cfg ts w)"
  by (induction ts arbitrary: w) (auto simp add: loop_mirrors)

lemma loop_frame:
  "loop cfg now rd (w\<lparr>effects := es @ effects w\<rparr>) =
     (loop cfg now rd w)\<lparr>effects := es @ effects (loop cfg now rd w)\<rparr>"
  by (simp add: loop_def Let_def call_defs)

lemma run_frame:
  "run cfg ts (w\<lparr>effects := es @ effects w\<rparr>) =
     (run cfg ts w)\<lparr>effects := es @ effects (run cfg ts w)\<rparr>"
proof (induction ts arbitrary: w)
  case Nil
  show ?case by simp
next
  case (Cons t ts)
  obtain now rd where t: "t = (now, rd)" by (cases t)
  show ?case by (simp add: t loop_frame Cons.IH)
qed

lemma setup_boot:
  "setup_fw cfg boot = boot\<lparr>effects := effects (setup_fw cfg boot) @ effects boot\<rparr>"
  by (simp add: setup_fw_def report_safety_callouts_def enforce_audio_safety_def call_defs
      boot_def)

lemma run_after_setup:
  "run cfg ts (setup_fw cfg boot) =
     (run cfg ts boot)\<lparr>effects := effects (setup_fw cfg boot) @ effects (run cfg ts boot)\<rparr>"
proof -
  have "run cfg ts (setup_fw cfg boot) =
          run cfg ts (boot\<lparr>effects := effects (setup_fw cfg boot) @ effects boot\<rparr>)"
    using setup_boot [of cfg] by simp
  then show ?thesis by (simp only: run_frame)
qed

lemma setup_effects:
  "effects (setup_fw cfg boot) =
     [ PinMode (kStatusLedPin cfg) OUTPUT,
       PinMode (kButtonPin cfg) INPUT_PULLUP,
       DigitalWrite (kStatusLedPin cfg) LOW,
       SerialBegin (kSerialBaudRate cfg),
       SerialPrintln [],
       SerialPrint ''Sigma firmware ready (v'',
       SerialPrint (kFirmwareVersion cfg),
       SerialPrintln '')'',
       SerialPrintln ''Press the button to toggle the status LED'' ] @
     (if kRecommendedMaxSplDb cfg > kAbsoluteMaxSplDb cfg
      then [SerialPrintln spl_warning] else []) @
     effects (report_safety_callouts cfg boot)"
  by (simp add: setup_fw_def report_safety_callouts_def enforce_audio_safety_def call_defs
      boot_def)

lemma warning_count:
  "length (filter (\<lambda>e. e = SerialPrintln spl_warning) (effects (setup_fw cfg boot))) =
     (if kRecommendedMaxSplDb cfg > kAbsoluteMaxSplDb cfg then 1 else 0)"
  by (simp add: setup_effects)
     (simp add: report_safety_callouts_def call_defs boot_def spl_warning_def)

lemma setup_exact:
  "setup_fw cfg w =
     w\<lparr>effects := effects w @
       [ PinMode (kStatusLedPin cfg) OUTPUT,
         PinMode (kButtonPin cfg) INPUT_PULLUP,
         DigitalWrite (kStatusLedPin cfg) LOW,
         SerialBegin (kSerialBaudRate cfg),
         SerialPrintln [],
         SerialPrint ''Sigma firmware ready (v'',
         SerialPrint (kFirmwareVersion cfg),
         SerialPrintln '')'',
         SerialPrintln ''Press the button to toggle the status LED'' ] @
       (if kRecommendedMaxSplDb cfg > kAbsoluteMaxSplDb cfg
        then [SerialPrintln spl_warning] else []) @
       [ SerialPrint ''[safety] Maintain SPL under '',
         SerialPrintFloat (kRecommendedMaxSplDb cfg),
         SerialPrintln '' dB for extended sessions (absolute max 94 dB).'',
         SerialPrint ''[safety] Keep mic bias between '',
         SerialPrintFloat (kMicBiasMinVolts cfg),
         SerialPrint '' V and '',
         SerialPrintFloat (kMicBiasMaxVolts cfg),
         SerialPrintln '' V.'',
         SerialPrint ''[safety] Stop use if battery drops below '',
         SerialPrintFloat (kBatteryLowVolts cfg),
         SerialPrintln '' V (critical at 3.0 V).'' ]\<rparr>"
  by (simp add: setup_fw_def report_safety_callouts_def enforce_audio_safety_def call_defs)

section \<open>The claims\<close>

subsection \<open>The startup check and the mic-bias and battery constants\<close>

text \<open>
  Claim C1 (as amended). The startup check \<open>enforce_audio_safety\<close> compares only the two SPL
  constants. For every configuration its outcome is the same whatever the mic-bias and
  battery constants are, and the only line it can print is the SPL warning: no mic-bias
  and no battery violation is reported, whether or not those relations hold.
\<close>

theorem enforce_audio_safety_spl_only:
  "enforce_audio_safety
     (cfg\<lparr>kMicBiasMinVolts := a, kMicBiasMaxVolts := b, kBatteryNominalVolts := n,
          kBatteryLowVolts := l, kBatteryCriticalVolts := c\<rparr>) w =
     enforce_audio_safety cfg w \<and>
   (enforce_audio_safety cfg w = w \<or>
    enforce_audio_safety cfg w = w\<lparr>effects := effects w @ [SerialPrintln spl_warning]\<rparr>)"
  by (simp add: enforce_audio_safety_def call_defs)

text \<open>
  Claim C1 as stated fails: with the mic-bias bounds inverted (minimum 3 V at or above
  the maximum 2 V), and likewise with the critical battery voltage above the low-battery
  voltage, the check performs no effect at all, so nothing is reported.
\<close>

theorem bias_and_battery_unchecked:
  "kMicBiasMinVolts inverted_bias \<ge> kMicBiasMaxVolts inverted_bias \<and>
   enforce_audio_safety inverted_bias boot = boot \<and>
   kBatteryCriticalVolts weak_battery \<ge> kBatteryLowVolts weak_battery \<and>
   enforce_audio_safety weak_battery boot = boot"
  by (simp add: enforce_audio_safety_def inverted_bias_def weak_battery_def config_h_def)

subsection \<open>Scenario C\<close>

text \<open>
  Claim C2 (as amended). From the initial state (\<open>button_state\<close> false, \<open>last_sample_ms\<close> 0)
  the ticks (pressed, 0), (pressed, 5), (released, 20) leave the state released and
  produce no effect: the first two fall inside the debounce window that starts at
  \<open>last_sample_ms = 0\<close>, and the third samples a level equal to the current state. The
  outcome the scenario describes (pressed with one notification, ignored, released with
  one notification, two notification lines in all) is what the same ticks produce one
  interval later, at 10, 15 and 30. A pressed button reads \<open>LOW\<close>.
\<close>

theorem scenario_c_from_boot:
  "run cfg [(0, LOW), (5, LOW), (20, HIGH)] boot =
     \<lparr> last_sample_ms = 20, button_state = False, effects = [] \<rparr> \<and>
   loop cfg 10 LOW boot =
     \<lparr> last_sample_ms = 10, button_state = True, effects = change_effects cfg True \<rparr> \<and>
   loop cfg 15 LOW (loop cfg 10 LOW boot) = loop cfg 10 LOW boot \<and>
   loop cfg 30 HIGH (loop cfg 10 LOW boot) =
     \<lparr> last_sample_ms = 30, button_state = False,
       effects = change_effects cfg True @ change_effects cfg False \<rparr> \<and>
   serial_lines fmt (run cfg [(10, LOW), (15, LOW), (30, HIGH)] boot) =
     [''Button state: pressed'', ''Button state: released'']"
  by (simp add: loop_def boot_def kDebounceDelayMs_def Let_def call_defs change_effects_def
      serial_lines_def)

text \<open>
  Claim C2 as stated fails: at \<open>now = 0\<close> the guard \<open>0 - 0 < 10\<close> holds, so the first
  tick is ignored instead of moving to pressed, and the whole sequence emits nothing.
\<close>

theorem scenario_c_first_tick_ignored:
  "loop config_h 0 LOW boot = boot \<and>
   loop config_h 5 LOW boot = boot \<and>
   button_state boot = False \<and>
   run config_h [(0, LOW), (5, LOW), (20, HIGH)] boot =
     \<lparr> last_sample_ms = 20, button_state = False, effects = [] \<rparr>"
  by (simp add: loop_def boot_def kDebounceDelayMs_def Let_def)

subsection \<open>The SPL check\<close>

text \<open>
  Claim C3. For every configuration with \<open>kRecommendedMaxSplDb \<le> kAbsoluteMaxSplDb\<close>
  (equality included) the startup check changes nothing and reports nothing; for every
  configuration with \<open>kRecommendedMaxSplDb > kAbsoluteMaxSplDb\<close> it performs exactly one
  effect, the \<^verbatim>\<open>println\<close> of the SPL warning.
\<close>

theorem spl_violation_reported_iff:
  "(kRecommendedMaxSplDb cfg \<le> kAbsoluteMaxSplDb cfg \<longrightarrow> enforce_audio_safety cfg w = w) \<and>
   (kRecommendedMaxSplDb cfg > kAbsoluteMaxSplDb cfg \<longrightarrow>
      enforce_audio_safety cfg w = w\<lparr>effects := effects w @ [SerialPrintln spl_warning]\<rparr>)"
  by (simp add: enforce_ok enforce_bad)

text \<open>
  The configuration of config.h (85 against 94) and the same with the recommended limit
  raised to 95.
\<close>

theorem spl_violation_reported_iff_witness:
  "kRecommendedMaxSplDb config_h \<le> kAbsoluteMaxSplDb config_h \<and>
   effects (enforce_audio_safety config_h boot) = [] \<and>
   kRecommendedMaxSplDb (config_h\<lparr>kRecommendedMaxSplDb := 95\<rparr>) >
     kAbsoluteMaxSplDb (config_h\<lparr>kRecommendedMaxSplDb := 95\<rparr>) \<and>
   effects (enforce_audio_safety (config_h\<lparr>kRecommendedMaxSplDb := 95\<rparr>) boot) =
     [SerialPrintln spl_warning]"
  using spl_violation_reported_iff [of config_h boot]
    spl_violation_reported_iff [of "config_h\<lparr>kRecommendedMaxSplDb := 95\<rparr>" boot]
  by (simp add: config_h_def boot_def)

subsection \<open>Two calls within the debounce interval\<close>

text \<open>
  Claim C4 (as amended). For every state and every pair of levels read, two calls of
  \<open>loop\<close> whose \<open>now\<close> values are less than the debounce interval apart change
  \<open>button_state\<close> at most once in total; and when the first call passed the guard, the
  second call returns the world unchanged: no state change, no output write, no
  notification.
\<close>

theorem two_ticks_within_interval:
  assumes "now2 - now1 < kDebounceDelayMs"
  shows "changes w (loop cfg now1 rd1 w) +
           changes (loop cfg now1 rd1 w) (loop cfg now2 rd2 (loop cfg now1 rd1 w)) \<le> 1 \<and>
         (\<not> now1 - last_sample_ms w < kDebounceDelayMs \<longrightarrow>
            loop cfg now2 rd2 (loop cfg now1 rd1 w) = loop cfg now1 rd1 w)"
proof (cases "now1 - last_sample_ms w < kDebounceDelayMs")
  case True
  then have "loop cfg now1 rd1 w = w" by (rule loop_ignored)
  then show ?thesis using True by (simp add: changes_def)
next
  case False
  then have "last_sample_ms (loop cfg now1 rd1 w) = now1"
    by (simp add: loop_sampled)
  with assms have "loop cfg now2 rd2 (loop cfg now1 rd1 w) = loop cfg now1 rd1 w"
    by (simp add: loop_ignored)
  then show ?thesis by (simp add: changes_def)
qed

text \<open>Calls at 10 and 15 from the initial state: the first is sampled, the second ignored.\<close>

theorem two_ticks_within_interval_witness:
  "(15::ulong) - 10 < kDebounceDelayMs \<and>
   \<not> (10::ulong) - last_sample_ms boot < kDebounceDelayMs \<and>
   button_state (loop config_h 10 LOW boot) \<and>
   loop config_h 15 HIGH (loop config_h 10 LOW boot) = loop config_h 10 LOW boot"
proof -
  have h: "(15::ulong) - 10 < kDebounceDelayMs" by (simp add: kDebounceDelayMs_def)
  have g: "\<not> (10::ulong) - last_sample_ms boot < kDebounceDelayMs"
    by (simp add: kDebounceDelayMs_def boot_def)
  have b: "button_state (loop config_h 10 LOW boot)"
    by (simp add: loop_def kDebounceDelayMs_def boot_def Let_def call_defs)
  from two_ticks_within_interval [OF h, of boot config_h LOW HIGH] g h b
  show ?thesis by simp
qed

text \<open>
  Claim C4 as stated fails when the first call is itself ignored: from the initial state
  the call at 5 is ignored, and the call at 12, less than the interval after it, is
  sampled (12 ms after \<open>last_sample_ms = 0\<close>), writes the status pin and prints the
  notification.
\<close>

theorem second_tick_writes_after_ignored_first:
  "(12::ulong) - 5 < kDebounceDelayMs \<and>
   loop config_h 5 LOW boot = boot \<and>
   effects (loop config_h 12 LOW (loop config_h 5 LOW boot)) =
     [DigitalWrite 2 HIGH, SerialPrint ''Button state: '', SerialPrintln ''pressed'']"
  by (simp add: loop_def boot_def kDebounceDelayMs_def Let_def call_defs config_h_def)

subsection \<open>Edge triggering\<close>

text \<open>
  Claim C5. Take ticks that all read the same level. Once \<open>button_state\<close> has that value,
  no further tick produces an effect or changes the state; from any state the whole run
  adds either nothing or the effects of exactly one state change. For every single call
  of \<open>loop\<close>, the effects added are those of one state change when \<open>button_state\<close>
  changed and none otherwise, and the effects of a state change render as the one line
  "Button state: pressed" or "Button state: released". This holds for any spacing of the
  ticks, in particular for ticks spaced beyond the debounce interval.
\<close>

theorem edge_triggered:
  "(button_state w = (rd = LOW) \<longrightarrow>
      effects (run cfg (map (\<lambda>t. (t, rd)) ts) w) = effects w \<and>
      button_state (run cfg (map (\<lambda>t. (t, rd)) ts) w) = button_state w) \<and>
   (effects (run cfg (map (\<lambda>t. (t, rd)) ts) w) = effects w \<or>
    effects (run cfg (map (\<lambda>t. (t, rd)) ts) w) = effects w @ change_effects cfg (rd = LOW)) \<and>
   effects (loop cfg now rd w) =
     effects w @ (if button_state (loop cfg now rd w) = button_state w then []
                  else change_effects cfg (button_state (loop cfg now rd w))) \<and>
   lines_from fmt [] (change_effects cfg p) =
     [''Button state: '' @ (if p then ''pressed'' else ''released'')]"
  using run_same_value [of w rd cfg ts] run_at_most_one [of cfg rd ts w]
    loop_effects [of cfg now rd w] change_lines [of fmt cfg p]
  by blast

text \<open>
  Ticks at 10, 25, 40 and 55, all reading a pressed button: the first moves to pressed,
  the others add nothing.
\<close>

theorem edge_triggered_witness:
  "button_state (loop config_h 10 LOW boot) = (LOW = LOW) \<and>
   effects (run config_h [(25, LOW), (40, LOW), (55, LOW)] (loop config_h 10 LOW boot)) =
     effects (loop config_h 10 LOW boot) \<and>
   effects (run config_h [(10, LOW), (25, LOW), (40, LOW), (55, LOW)] boot) =
     change_effects config_h True"
proof -
  have b: "button_state (loop config_h 10 LOW boot) = (LOW = LOW)"
    by (simp add: loop_def kDebounceDelayMs_def boot_def Let_def call_defs)
  have e: "effects (loop config_h 10 LOW boot) = change_effects config_h True"
    by (simp add: loop_def kDebounceDelayMs_def boot_def Let_def call_defs change_effects_def)
  from edge_triggered [of "loop config_h 10 LOW boot" LOW config_h "[25, 40, 55]"] b e
  show ?thesis by simp
qed

subsection \<open>The debounce guard\<close>

text \<open>
  Claim C6. If \<open>now - last_sample_ms < kDebounceDelayMs\<close> then \<open>loop\<close> returns the world
  as it was (both variables keep their values and no effect is performed); otherwise
  \<open>last_sample_ms\<close> is \<open>now\<close> afterwards.
\<close>

theorem debounce_guard_frame:
  "(now - last_sample_ms w < kDebounceDelayMs \<longrightarrow> loop cfg now rd w = w) \<and>
   (\<not> now - last_sample_ms w < kDebounceDelayMs \<longrightarrow>
      last_sample_ms (loop cfg now rd w) = now)"
  by (simp add: loop_ignored loop_sampled)

text \<open>From the initial state, a call at 5 is ignored and a call at 20 is sampled.\<close>

theorem debounce_guard_frame_witness:
  "(5::ulong) - last_sample_ms boot < kDebounceDelayMs \<and>
   loop config_h 5 LOW boot = boot \<and>
   \<not> (20::ulong) - last_sample_ms boot < kDebounceDelayMs \<and>
   last_sample_ms (loop config_h 20 LOW boot) = 20"
  using debounce_guard_frame [of 5 boot config_h LOW]
    debounce_guard_frame [of 20 boot config_h LOW]
  by (simp add: boot_def kDebounceDelayMs_def)

subsection \<open>Violations do not stop the startup\<close>

text \<open>
  Claim C7 (as amended). For every configuration and every world, \<open>setup_fw\<close> completes,
  leaves \<open>last_sample_ms\<close> and \<open>button_state\<close> as they were, and performs exactly these
  effects, in this order: the two \<^verbatim>\<open>pinMode\<close> calls, the write of \<open>LOW\<close> to the status
  pin, \<^verbatim>\<open>Serial.begin\<close>, the blank line, the ready line and the usage hint; then the SPL
  warning, once, when the recommended limit exceeds the absolute one, and nothing
  otherwise; then the safety callouts in full. Nothing else is printed, so a mic-bias or
  battery violation is not reported. The calls of \<open>loop\<close> that follow behave as they do
  from the initial state, their effects coming after those of the startup.
\<close>

theorem startup_non_fatal:
  "setup_fw cfg w =
     w\<lparr>effects := effects w @
       [ PinMode (kStatusLedPin cfg) OUTPUT,
         PinMode (kButtonPin cfg) INPUT_PULLUP,
         DigitalWrite (kStatusLedPin cfg) LOW,
         SerialBegin (kSerialBaudRate cfg),
         SerialPrintln [],
         SerialPrint ''Sigma firmware ready (v'',
         SerialPrint (kFirmwareVersion cfg),
         SerialPrintln '')'',
         SerialPrintln ''Press the button to toggle the status LED'' ] @
       (if kRecommendedMaxSplDb cfg > kAbsoluteMaxSplDb cfg
        then [SerialPrintln spl_warning] else []) @
       [ SerialPrint ''[safety] Maintain SPL under '',
         SerialPrintFloat (kRecommendedMaxSplDb cfg),
         SerialPrintln '' dB for extended sessions (absolute max 94 dB).'',
         SerialPrint ''[safety] Keep mic bias between '',
         SerialPrintFloat (kMicBiasMinVolts cfg),
         SerialPrint '' V and '',
         SerialPrintFloat (kMicBiasMaxVolts cfg),
         SerialPrintln '' V.'',
         SerialPrint ''[safety] Stop use if battery drops below '',
         SerialPrintFloat (kBatteryLowVolts cfg),
         SerialPrintln '' V (critical at 3.0 V).'' ]\<rparr> \<and>
   last_sample_ms (setup_fw cfg w) = last_sample_ms w \<and>
   button_state (setup_fw cfg w) = button_state w \<and>
   length (filter (\<lambda>e. e = SerialPrintln spl_warning) (effects (setup_fw cfg boot))) =
     (if kRecommendedMaxSplDb cfg > kAbsoluteMaxSplDb cfg then 1 else 0) \<and>
   run cfg ts (setup_fw cfg boot) =
     (run cfg ts boot)\<lparr>effects := effects (setup_fw cfg boot) @ effects (run cfg ts boot)\<rparr>"
  using setup_exact [of cfg w] setup_state [of cfg w] warning_count [of cfg]
    run_after_setup [of cfg ts]
  by (intro conjI) simp_all

text \<open>
  Claim C7 as stated fails in its report: a configuration whose critical battery voltage
  is above the low-battery voltage violates a declared invariant, and the effects of the
  startup, listed here in full, contain no warning.
\<close>

theorem battery_violation_unreported:
  "kBatteryCriticalVolts weak_battery \<ge> kBatteryLowVolts weak_battery \<and>
   effects (setup_fw weak_battery boot) =
     [ PinMode 2 OUTPUT,
       PinMode 0 INPUT_PULLUP,
       DigitalWrite 2 LOW,
       SerialBegin 115200,
       SerialPrintln [],
       SerialPrint ''Sigma firmware ready (v'',
       SerialPrint ''0.1.0'',
       SerialPrintln '')'',
       SerialPrintln ''Press the button to toggle the status LED'',
       SerialPrint ''[safety] Maintain SPL under '',
       SerialPrintFloat 85,
       SerialPrintln '' dB for extended sessions (absolute max 94 dB).'',
       SerialPrint ''[safety] Keep mic bias between '',
       SerialPrintFloat (7549747 / 4194304),
       SerialPrint '' V and '',
       SerialPrintFloat (13841203 / 4194304),
       SerialPrintln '' V.'',
       SerialPrint ''[safety] Stop use if battery drops below '',
       SerialPrintFloat (13841203 / 4194304),
       SerialPrintln '' V (critical at 3.0 V).'' ]"
  by (simp add: setup_fw_def enforce_audio_safety_def report_safety_callouts_def call_defs
      boot_def weak_battery_def config_h_def)

subsection \<open>The order of the startup report\<close>

text \<open>
  Claim C8. The lines of the startup report, in order: an empty line, the
  firmware-ready line with the version, the usage hint, the SPL warning if the check
  detects a violation, then the three lines about SPL, mic bias and battery.
\<close>

theorem startup_report_order:
  "serial_lines fmt (setup_fw cfg boot) =
     [ [],
       ''Sigma firmware ready (v'' @ kFirmwareVersion cfg @ '')'',
       ''Press the button to toggle the status LED'' ] @
     (if kRecommendedMaxSplDb cfg > kAbsoluteMaxSplDb cfg then [spl_warning] else []) @
     [ ''[safety] Maintain SPL under '' @ fmt (kRecommendedMaxSplDb cfg) @
         '' dB for extended sessions (absolute max 94 dB).'',
       ''[safety] Keep mic bias between '' @ fmt (kMicBiasMinVolts cfg) @ '' V and '' @
         fmt (kMicBiasMaxVolts cfg) @ '' V.'',
       ''[safety] Stop use if battery drops below '' @ fmt (kBatteryLowVolts cfg) @
         '' V (critical at 3.0 V).'' ]"
  by (simp add: serial_lines_def setup_fw_def enforce_audio_safety_def
      report_safety_callouts_def call_defs boot_def)

subsection \<open>The status pin mirrors the debounced state\<close>

text \<open>
  Claim C9. After \<open>setup_fw\<close> the status pin was last written \<open>LOW\<close> and \<open>button_state\<close>
  is false; every call of \<open>loop\<close> keeps the status pin showing \<open>button_state\<close>; and after
  any sequence of calls the level last written is \<open>HIGH\<close> exactly when \<open>button_state\<close>
  is true, and \<open>LOW\<close> exactly when it is false.
\<close>

theorem status_mirrors_state:
  "status_level cfg (setup_fw cfg boot) = Some LOW \<and>
   button_state (setup_fw cfg boot) = False \<and>
   (mirrors cfg w \<longrightarrow> mirrors cfg (loop cfg now rd w)) \<and>
   (status_level cfg (run cfg ts (setup_fw cfg boot)) = Some HIGH) =
     button_state (run cfg ts (setup_fw cfg boot)) \<and>
   (status_level cfg (run cfg ts (setup_fw cfg boot)) = Some LOW) =
     (\<not> button_state (run cfg ts (setup_fw cfg boot)))"
proof -
  have s: "button_state (setup_fw cfg boot) = False"
    by (simp add: setup_state) (simp add: boot_def)
  then have "mirrors cfg (setup_fw cfg boot)"
    by (simp add: mirrors_def setup_mirrors level_of_def)
  then have "mirrors cfg (run cfg ts (setup_fw cfg boot))"
    by (rule run_mirrors)
  then show ?thesis
    using s loop_mirrors [of cfg w now rd]
    by (simp add: setup_mirrors) (auto simp add: mirrors_def level_of_def)
qed

text \<open>Startup with config.h, then one sampled tick that reads a pressed button.\<close>

theorem status_mirrors_state_witness:
  "mirrors config_h (setup_fw config_h boot) \<and>
   mirrors config_h (loop config_h 10 LOW (setup_fw config_h boot)) \<and>
   button_state (run config_h [(10, LOW)] (setup_fw config_h boot)) \<and>
   status_level config_h (run config_h [(10, LOW)] (setup_fw config_h boot)) = Some HIGH"
proof -
  have m: "mirrors config_h (setup_fw config_h boot)"
    using status_mirrors_state [of config_h boot 10 LOW "[]"] by (simp add: mirrors_def level_of_def)
  have b: "button_state (run config_h [(10, LOW)] (setup_fw config_h boot))"
    by (simp add: loop_def setup_state kDebounceDelayMs_def Let_def call_defs)
       (simp add: boot_def)
  from status_mirrors_state [of config_h "setup_fw config_h boot" 10 LOW "[(10, LOW)]"] m b
  show ?thesis by simp
qed

subsection \<open>The guard under wrap-around\<close>

text \<open>
  Claim C10. \<open>loop\<close> ignores a call exactly when \<open>(now - last_sample_ms) mod 2 ^ 32 < 10\<close>,
  the subtraction taken on the unsigned values. A call made \<open>d\<close> milliseconds after the last
  sample, \<open>10 \<le> d < 2 ^ 32\<close>, is sampled wherever the counter wraps in between; so is
  any call whose wrapped \<open>now\<close> is below \<open>last_sample_ms\<close> once the modular difference
  has reached 10.
\<close>

theorem guard_modulo_wraparound:
  "(loop cfg now rd w = w) = ((uint now - uint (last_sample_ms w)) mod 2 ^ 32 < 10) \<and>
   (10 \<le> d \<and> d < 2 ^ 32 \<longrightarrow>
      last_sample_ms (loop cfg (last_sample_ms w + of_nat d) rd w) = last_sample_ms w + of_nat d) \<and>
   (now < last_sample_ms w \<and> 10 \<le> (uint now - uint (last_sample_ms w)) mod 2 ^ 32 \<longrightarrow>
      last_sample_ms (loop cfg now rd w) = now)"
proof (intro conjI impI)
  show "(loop cfg now rd w = w) = ((uint now - uint (last_sample_ms w)) mod 2 ^ 32 < 10)"
    by (simp only: loop_fix_iff guard_mod)
next
  assume "10 \<le> d \<and> d < 2 ^ 32"
  then have "10 \<le> d" and "d < 2 ^ 32" by simp_all
  then have "\<not> (last_sample_ms w + of_nat d) - last_sample_ms w < kDebounceDelayMs"
    by (rule elapsed_guard)
  then show "last_sample_ms (loop cfg (last_sample_ms w + of_nat d) rd w) = last_sample_ms w + of_nat d"
    by (simp add: loop_sampled)
next
  assume "now < last_sample_ms w \<and> 10 \<le> (uint now - uint (last_sample_ms w)) mod 2 ^ 32"
  then have "\<not> now - last_sample_ms w < kDebounceDelayMs"
    by (simp add: guard_mod)
  then show "last_sample_ms (loop cfg now rd w) = now"
    by (simp add: loop_sampled)
qed

text \<open>
  The last sample was taken at \<open>2 ^ 32 - 5\<close>. Ten milliseconds later \<^verbatim>\<open>millis()\<close> has
  wrapped to 5 and the call is sampled; at 4 (nine milliseconds) it is ignored.
\<close>

theorem guard_modulo_wraparound_witness:
  "(10::nat) \<le> 10 \<and> (10::nat) < 2 ^ 32 \<and>
   last_sample_ms late + of_nat 10 = 5 \<and>
   (5::ulong) < last_sample_ms late \<and>
   (uint (5::ulong) - uint (last_sample_ms late)) mod 2 ^ 32 = 10 \<and>
   last_sample_ms (loop config_h 5 LOW late) = 5 \<and>
   button_state (loop config_h 5 LOW late) \<and>
   loop config_h 4 LOW late = late"
  using guard_modulo_wraparound [of config_h 5 LOW late 10]
    guard_modulo_wraparound [of config_h 4 LOW late 10]
  by (simp add: late_def boot_def loop_def kDebounceDelayMs_def Let_def call_defs)

end
